theory Spec2Isabelle
  imports Main "HOL-Library.Char_ord" "HOL-Library.List_Lexorder" "HOL-Library.State_Monad"
begin

section \<open>Values of the program\<close>

text \<open>
  The embedding follows \<^verbatim>\<open>src/quote_generator.py\<close>, class \<^verbatim>\<open>QuoteGenerator\<close>.

  A quote is a Python \<^verbatim>\<open>Dict[str, str]\<close>, as the source annotates it: here the list of
  its items, read through \<open>map_of\<close>. The empty dictionary is the empty list, which is
  what \<^verbatim>\<open>not quote\<close> tests. A string is a \<open>char list\<close> holding the UTF-8 bytes of the
  Python string, so that the em-dash of the display template is three bytes and the
  ordering of \<open>HOL-Library.List_Lexorder\<close> over \<open>HOL-Library.Char_ord\<close> is the code point
  ordering that \<^verbatim>\<open>sorted\<close> uses.
\<close>

type_synonym quote = "(string \<times> string) list"

text \<open>\<^verbatim>\<open>d.get(k, default)\<close>\<close>

definition dict_get :: "('k \<times> 'v) list \<Rightarrow> 'k \<Rightarrow> 'v \<Rightarrow> 'v" where
  "dict_get d k dflt = (case map_of d k of None \<Rightarrow> dflt | Some v \<Rightarrow> v)"

text \<open>
  The exceptions that the modelled code can raise. \<open>FileNotFoundError\<close> carries its
  message; \<open>JSONDecodeError\<close> carries \<^verbatim>\<open>msg\<close>, \<^verbatim>\<open>doc\<close> and \<^verbatim>\<open>pos\<close>. \<open>OSError\<close> stands for the
  operating system errors other than \<open>FileNotFoundError\<close>.
\<close>

datatype os_error = IsADirectoryError | NotADirectoryError | PermissionError | OtherOSError

datatype error =
    FileNotFoundError string
  | OSError os_error
  | UnicodeDecodeError
  | RecursionError
  | JSONDecodeError string string nat
  | AttributeError
  | IndexError

subsection \<open>String methods\<close>

text \<open>
  The built-in methods \<^verbatim>\<open>str.lower\<close> and \<^verbatim>\<open>str.capitalize\<close> work on all of Unicode, with
  tables that are not part of the program. The functions below that call them take
  them as the parameters \<open>str_lower\<close> and \<open>str_capitalize\<close>, and a theorem states as a
  hypothesis what it needs of them.

  On text made of ASCII characters only, the two methods are the functions
  \<open>ascii_lower\<close> and \<open>ascii_capitalize\<close>: \<^verbatim>\<open>lower\<close> maps A-Z to a-z and keeps every other
  character, \<^verbatim>\<open>capitalize\<close> upper-cases the first character and lower-cases the others.
\<close>

definition ascii_text :: "string \<Rightarrow> bool" where
  "ascii_text s = list_all (\<lambda>ch. of_char ch < (128::nat)) s"

definition is_upper :: "char \<Rightarrow> bool" where
  "is_upper c = (CHR ''A'' \<le> c \<and> c \<le> CHR ''Z'')"

definition is_lower :: "char \<Rightarrow> bool" where
  "is_lower c = (CHR ''a'' \<le> c \<and> c \<le> CHR ''z'')"

definition ascii_lower_char :: "char \<Rightarrow> char" where
  "ascii_lower_char c = (if is_upper c then char_of (of_char c + (32::nat)) else c)"

definition ascii_upper_char :: "char \<Rightarrow> char" where
  "ascii_upper_char c = (if is_lower c then char_of (of_char c - (32::nat)) else c)"

definition ascii_lower :: "string \<Rightarrow> string" where
  "ascii_lower s = map ascii_lower_char s"

fun ascii_capitalize :: "string \<Rightarrow> string" where
  "ascii_capitalize [] = []"
| "ascii_capitalize (c # cs) = ascii_upper_char c # ascii_lower cs"

subsection \<open>Random selection\<close>

text \<open>
  \<^verbatim>\<open>random.choice(seq)\<close> raises \<^verbatim>\<open>IndexError\<close> on an empty sequence and otherwise returns
  \<^verbatim>\<open>seq[k]\<close> for an index \<open>k\<close> below \<^verbatim>\<open>len(seq)\<close> drawn from the generator. The draw is
  the explicit argument \<open>r\<close>: any natural number, reduced below the length, so that
  every index is the outcome of some draw and every draw gives an index in range.
\<close>

definition choice :: "'a list \<Rightarrow> nat \<Rightarrow> error + 'a" where
  "choice seq r = (if seq = [] then Inl IndexError else Inr (seq ! (r mod length seq)))"

section \<open>The quote store\<close>

record QuoteGenerator =
  quotes_file :: string
  quotes :: "quote list"

subsection \<open>Loading\<close>

text \<open>
  What \<^verbatim>\<open>json.load\<close> returns for a syntactically valid file: a top-level mapping, or a
  value of another kind (list, string, number, boolean, null). The values of the mapping
  are typed as the source types \<^verbatim>\<open>self.quotes\<close>: sequences of quotes.

  What \<^verbatim>\<open>json.load(file)\<close> meets in an opened file: bytes that are not UTF-8, for which
  reading raises \<^verbatim>\<open>UnicodeDecodeError\<close>; text that is not JSON, for which it raises
  \<^verbatim>\<open>JSONDecodeError(msg, doc, pos)\<close>; a document nested beyond the recursion limit, for
  which it raises \<^verbatim>\<open>RecursionError\<close>; or a valid document.

  What \<^verbatim>\<open>open(path, 'r', encoding='utf-8')\<close> meets at a path: nothing, for which it
  raises \<^verbatim>\<open>FileNotFoundError\<close>; something it cannot open or read (a directory, a path
  that runs through a file that is not a directory, a file without read permission,
  another operating system error), for which it raises that error; or a file.
\<close>

datatype document = Mapping "(string \<times> quote list) list" | NonMapping

datatype content =
    Undecodable
  | Invalid string string nat
  | TooDeep
  | Valid document

datatype path_status = NoSuchFile | CannotOpen os_error | File content

type_synonym filesystem = "string \<Rightarrow> path_status"

text \<open>
  \<^verbatim>\<open>load_quotes\<close> returns the store with \<^verbatim>\<open>self.quotes\<close> assigned and the lines printed,
  or the exception raised. The two \<^verbatim>\<open>except\<close> clauses catch \<^verbatim>\<open>FileNotFoundError\<close> and
  \<^verbatim>\<open>json.JSONDecodeError\<close> and raise the same exception with a new message; every other
  exception leaves the method as it is, among them the \<^verbatim>\<open>AttributeError\<close> of \<^verbatim>\<open>data.get\<close>
  on a value that is not a mapping.
\<close>

definition load_quotes :: "filesystem \<Rightarrow> QuoteGenerator \<Rightarrow> error + (QuoteGenerator \<times> string list)" where
  "load_quotes fs self =
     (case fs (quotes_file self) of
        NoSuchFile \<Rightarrow>
          Inl (FileNotFoundError (''Quotes file not found: '' @ quotes_file self
                 @ ''Please ensure the data/quotes.json file exists.''))
      | CannotOpen e \<Rightarrow> Inl (OSError e)
      | File Undecodable \<Rightarrow> Inl UnicodeDecodeError
      | File (Invalid msg doc pos) \<Rightarrow>
          Inl (JSONDecodeError (''Invalid JSON in quotes file: '' @ msg) doc pos)
      | File TooDeep \<Rightarrow> Inl RecursionError
      | File (Valid NonMapping) \<Rightarrow> Inl AttributeError
      | File (Valid (Mapping data)) \<Rightarrow>
          (let self' = self\<lparr>quotes := dict_get data ''quotes'' []\<rparr>
           in Inr (self', if quotes self' = []
                          then [''Warning: No quotes found in the file.'']
                          else [])))"

text \<open>
  \<^verbatim>\<open>__init__\<close>: the default path is \<^verbatim>\<open>data/quotes.json\<close> under the project root, the
  collection starts empty, and the object exists only if \<^verbatim>\<open>load_quotes\<close> returns.
\<close>

definition init :: "filesystem \<Rightarrow> string \<Rightarrow> string option \<Rightarrow> error + (QuoteGenerator \<times> string list)" where
  "init fs project_root quotes_file_arg =
     (let path = (case quotes_file_arg of
                    None \<Rightarrow> project_root @ ''/data/quotes.json''
                  | Some p \<Rightarrow> p)
      in load_quotes fs \<lparr>quotes_file = path, quotes = []\<rparr>)"

subsection \<open>Queries\<close>

definition get_random_quote :: "QuoteGenerator \<Rightarrow> nat \<Rightarrow> error + quote option" where
  "get_random_quote self r =
     (if quotes self = [] then Inr None
      else case choice (quotes self) r of Inl e \<Rightarrow> Inl e | Inr q \<Rightarrow> Inr (Some q))"

text \<open>The list comprehension of \<^verbatim>\<open>get_quote_by_category\<close>.\<close>

definition filtered_quotes :: "(string \<Rightarrow> string) \<Rightarrow> QuoteGenerator \<Rightarrow> string \<Rightarrow> quote list" where
  "filtered_quotes str_lower self category =
     filter (\<lambda>quote. str_lower (dict_get quote ''category'' []) = str_lower category) (quotes self)"

definition get_quote_by_category ::
    "(string \<Rightarrow> string) \<Rightarrow> QuoteGenerator \<Rightarrow> string \<Rightarrow> nat \<Rightarrow> error + quote option" where
  "get_quote_by_category str_lower self category r =
     (if filtered_quotes str_lower self category = [] then Inr None
      else case choice (filtered_quotes str_lower self category) r of
             Inl e \<Rightarrow> Inl e
           | Inr q \<Rightarrow> Inr (Some q))"

definition get_all_categories :: "QuoteGenerator \<Rightarrow> string list" where
  "get_all_categories self =
     sorted_list_of_set (set (map (\<lambda>quote. dict_get quote ''category'' ''unknown'') (quotes self)))"

subsection \<open>Formatting\<close>

definition newline :: string where
  "newline = [CHR 0x0A]"

definition dquote :: string where
  "dquote = [CHR 0x22]"

text \<open>U+2014 EM DASH in UTF-8.\<close>

definition em_dash :: string where
  "em_dash = [CHR 0xE2, CHR 0x80, CHR 0x94]"

text \<open>
  \<^verbatim>\<open>format_quote\<close>: \<^verbatim>\<open>not quote\<close> holds of \<^verbatim>\<open>None\<close> and of the empty dictionary. The
  template is a triple-quoted f-string: it starts and ends with a newline, and the
  author line is directly followed by the category line.
\<close>

definition format_quote :: "(string \<Rightarrow> string) \<Rightarrow> quote option \<Rightarrow> string" where
  "format_quote str_capitalize quote =
     (case quote of
        None \<Rightarrow> ''No quote available.''
      | Some q \<Rightarrow>
          if q = [] then ''No quote available.''
          else
            (let text = dict_get q ''text'' ''Unknown quote'';
                 author = dict_get q ''author'' ''Unknown'';
                 category = dict_get q ''category'' ''unknown''
             in newline
                @ dquote @ text @ dquote @ newline
                @ newline
                @ em_dash @ '' '' @ author @ newline
                @ ''['' @ str_capitalize category @ '']'' @ newline))"

subsection \<open>The methods as state transformers\<close>

text \<open>
  The four query methods once more, statement by statement, as computations on the
  state a call can reach: the object \<^verbatim>\<open>self\<close> and the generator of the module
  \<^verbatim>\<open>random\<close>, a sequence of draws and the number of draws taken. Reading an attribute
  is \<open>read_self\<close>; \<^verbatim>\<open>random.choice\<close> takes the next draw and so writes the generator.
  A call has no draw of its own here: it uses the generator's.
\<close>

record world =
  object :: QuoteGenerator
  draws :: "nat \<Rightarrow> nat"
  drawn :: nat

definition read_self :: "(world, QuoteGenerator) state" where
  "read_self = do { w \<leftarrow> State_Monad.get; State_Monad.return (object w) }"

definition next_draw :: "(world, nat) state" where
  "next_draw = do {
     w \<leftarrow> State_Monad.get;
     _ \<leftarrow> State_Monad.set (w\<lparr>drawn := Suc (drawn w)\<rparr>);
     State_Monad.return (draws w (drawn w))
   }"

definition random_choice :: "'a list \<Rightarrow> (world, error + 'a) state" where
  "random_choice seq =
     (if seq = [] then State_Monad.return (Inl IndexError)
      else do { r \<leftarrow> next_draw; State_Monad.return (Inr (seq ! (r mod length seq))) })"

definition get_random_quote_m :: "(world, error + quote option) state" where
  "get_random_quote_m = do {
     self \<leftarrow> read_self;
     if quotes self = [] then State_Monad.return (Inr None)
     else do {
       picked \<leftarrow> random_choice (quotes self);
       State_Monad.return (case picked of Inl e \<Rightarrow> Inl e | Inr q \<Rightarrow> Inr (Some q))
     }
   }"

definition get_quote_by_category_m ::
    "(string \<Rightarrow> string) \<Rightarrow> string \<Rightarrow> (world, error + quote option) state" where
  "get_quote_by_category_m str_lower category = do {
     self \<leftarrow> read_self;
     let filtered =
       filter (\<lambda>quote. str_lower (dict_get quote ''category'' []) = str_lower category) (quotes self);
     if filtered = [] then State_Monad.return (Inr None)
     else do {
       picked \<leftarrow> random_choice filtered;
       State_Monad.return (case picked of Inl e \<Rightarrow> Inl e | Inr q \<Rightarrow> Inr (Some q))
     }
   }"

definition get_all_categories_m :: "(world, string list) state" where
  "get_all_categories_m = do {
     self \<leftarrow> read_self;
     let categories = set (map (\<lambda>quote. dict_get quote ''category'' ''unknown'') (quotes self));
     State_Monad.return (sorted_list_of_set categories)
   }"

text \<open>\<^verbatim>\<open>format_quote\<close> reads its argument only.\<close>

definition format_quote_m :: "(string \<Rightarrow> string) \<Rightarrow> quote option \<Rightarrow> (world, string) state" where
  "format_quote_m str_capitalize quote = State_Monad.return (format_quote str_capitalize quote)"

text \<open>A call of one of the four, and a sequence of calls run one after the other.\<close>

datatype call =
    RandomQuote
  | QuoteByCategory string
  | AllCategories
  | Format "quote option"

datatype outcome =
    Selected "error + quote option"
  | Categories "string list"
  | Formatted string

fun perform :: "(string \<Rightarrow> string) \<Rightarrow> (string \<Rightarrow> string) \<Rightarrow> call \<Rightarrow> (world, outcome) state" where
  "perform str_lower str_capitalize RandomQuote =
     do { x \<leftarrow> get_random_quote_m; State_Monad.return (Selected x) }"
| "perform str_lower str_capitalize (QuoteByCategory category) =
     do { x \<leftarrow> get_quote_by_category_m str_lower category; State_Monad.return (Selected x) }"
| "perform str_lower str_capitalize AllCategories =
     do { x \<leftarrow> get_all_categories_m; State_Monad.return (Categories x) }"
| "perform str_lower str_capitalize (Format quote) =
     do { x \<leftarrow> format_quote_m str_capitalize quote; State_Monad.return (Formatted x) }"

definition run_calls ::
    "(string \<Rightarrow> string) \<Rightarrow> (string \<Rightarrow> string) \<Rightarrow> call list \<Rightarrow> (world, outcome list) state" where
  "run_calls str_lower str_capitalize calls = traverse_list (perform str_lower str_capitalize) calls"

section \<open>The specification's wording, for comparison\<close>

text \<open>
  The display layout as the specification words it: a blank line, the text in straight
  double quotes, a blank line, an em-dash followed by the author, a blank line, the
  category in square brackets with its first letter capitalized and the remainder
  unchanged. Where the wording leaves a choice (the space after the dash, the final
  newline), the definition takes the template's.
\<close>

fun spec_capitalize :: "string \<Rightarrow> string" where
  "spec_capitalize [] = []"
| "spec_capitalize (c # cs) = ascii_upper_char c # cs"

definition spec_layout :: "string \<Rightarrow> string \<Rightarrow> string \<Rightarrow> string" where
  "spec_layout t a c =
     newline
     @ dquote @ t @ dquote @ newline
     @ newline
     @ em_dash @ '' '' @ a @ newline
     @ newline
     @ ''['' @ spec_capitalize c @ '']'' @ newline"

text \<open>
  The match of a query against a record as the specification words it: the query
  against the record's category field, case-insensitively. A record without the field
  has no category to match.
\<close>

definition spec_category_matches :: "(string \<Rightarrow> string) \<Rightarrow> quote \<Rightarrow> string \<Rightarrow> bool" where
  "spec_category_matches str_lower q c =
     (case map_of q ''category'' of None \<Rightarrow> False | Some v \<Rightarrow> str_lower v = str_lower c)"



section \<open>Example stores\<close>

text \<open>
  The store of the specification's scenario: two records, one motivational and one
  philosophical.
\<close>

definition scenario_store :: QuoteGenerator where
  "scenario_store =
     \<lparr>quotes_file = ''quotes.json'',
      quotes = [[(''text'', ''A''), (''author'', ''B''), (''category'', ''motivational'')],
                [(''text'', ''C''), (''author'', ''D''), (''category'', ''philosophical'')]]\<rparr>"

text \<open>A file system with nothing at any path.\<close>

definition empty_fs :: filesystem where
  "empty_fs path = NoSuchFile"

section \<open>Auxiliary facts\<close>

lemma choice_nonempty: "seq \<noteq> [] \<Longrightarrow> choice seq r = Inr (seq ! (r mod length seq))"
  by (simp add: choice_def)

lemma choice_member:
  assumes "seq \<noteq> []"
  shows "\<exists>x \<in> set seq. choice seq r = Inr x"
proof -
  from assms have "r mod length seq < length seq" by simp
  then have "seq ! (r mod length seq) \<in> set seq" by (rule nth_mem)
  with assms show ?thesis by (auto simp: choice_nonempty)
qed

lemma choice_reaches:
  assumes "x \<in> set seq"
  shows "\<exists>r. choice seq r = Inr x"
proof -
  from assms obtain i where i: "i < length seq" "seq ! i = x"
    by (auto simp: in_set_conv_nth)
  then have "seq \<noteq> []" by auto
  with i have "choice seq i = Inr x" by (simp add: choice_nonempty)
  then show ?thesis ..
qed

lemma ascii_lower_empty_iff: "ascii_lower s = [] \<longleftrightarrow> s = []"
  by (simp add: ascii_lower_def)

lemma ascii_lower_char_fixed_iff: "ascii_lower_char ch = ch \<longleftrightarrow> \<not> is_upper ch"
proof (cases "is_upper ch")
  case False
  then show ?thesis by (simp add: ascii_lower_char_def)
next
  case True
  then have b: "of_char ch \<le> (90::nat)"
    by (simp add: is_upper_def less_eq_char_def)
  have "char_of (of_char ch + (32::nat)) \<noteq> ch"
  proof
    assume "char_of (of_char ch + (32::nat)) = ch"
    then have "of_char (char_of (of_char ch + (32::nat))) = (of_char ch :: nat)" by simp
    then have "(of_char ch + 32) mod 256 = (of_char ch :: nat)" by simp
    with b show False by simp
  qed
  with True show ?thesis by (simp add: ascii_lower_char_def)
qed

lemma ascii_lower_fixed_iff: "ascii_lower s = s \<longleftrightarrow> (\<forall>ch \<in> set s. \<not> is_upper ch)"
  by (induction s) (auto simp: ascii_lower_def ascii_lower_char_fixed_iff)

lemma ascii_capitalize_spec_iff:
  "ascii_capitalize c = spec_capitalize c \<longleftrightarrow> (\<forall>ch \<in> set (tl c). \<not> is_upper ch)"
  by (cases c) (simp_all add: ascii_lower_fixed_iff)

lemma ascii_lower_Motivational: "ascii_lower ''Motivational'' = ascii_lower ''motivational''"
  by code_simp

lemma filtered_quotes_set:
  "set (filtered_quotes str_lower self c)
     = {q \<in> set (quotes self). str_lower (dict_get q ''category'' []) = str_lower c}"
  by (simp add: filtered_quotes_def)

lemma get_quote_by_category_None_iff:
  "get_quote_by_category str_lower self c r = Inr None \<longleftrightarrow> filtered_quotes str_lower self c = []"
proof (cases "filtered_quotes str_lower self c = []")
  case True
  then show ?thesis by (simp add: get_quote_by_category_def)
next
  case False
  from choice_member [OF False, of r]
  obtain q where "choice (filtered_quotes str_lower self c) r = Inr q"
    by blast
  with False show ?thesis by (simp add: get_quote_by_category_def)
qed

lemma get_quote_by_category_Some:
  assumes "filtered_quotes str_lower self c \<noteq> []"
  shows "\<exists>q \<in> set (filtered_quotes str_lower self c).
           get_quote_by_category str_lower self c r = Inr (Some q)"
proof -
  from choice_member [OF assms, of r] obtain q
    where "q \<in> set (filtered_quotes str_lower self c)"
      and "choice (filtered_quotes str_lower self c) r = Inr q"
    by blast
  with assms show ?thesis by (auto simp: get_quote_by_category_def)
qed

lemma get_quote_by_category_single:
  assumes "str_lower (dict_get q ''category'' []) = str_lower c"
  shows "get_quote_by_category str_lower \<lparr>quotes_file = f, quotes = [q]\<rparr> c r = Inr (Some q)"
  using assms by (simp add: get_quote_by_category_def filtered_quotes_def choice_def)

lemma code_match_is_spec_match:
  assumes "\<forall>s. (str_lower s = []) = (s = [])" and "c \<noteq> []"
  shows "str_lower (dict_get q ''category'' []) = str_lower c \<longleftrightarrow> spec_category_matches str_lower q c"
proof (cases "map_of q ''category''")
  case None
  from assms have "str_lower [] \<noteq> str_lower c" by metis
  with None show ?thesis by (simp add: dict_get_def spec_category_matches_def)
next
  case (Some v)
  then show ?thesis by (simp add: dict_get_def spec_category_matches_def)
qed

lemma format_quote_present:
  assumes "q \<noteq> []"
  shows "format_quote str_capitalize (Some q)
           = newline
             @ dquote @ dict_get q ''text'' ''Unknown quote'' @ dquote @ newline
             @ newline
             @ em_dash @ '' '' @ dict_get q ''author'' ''Unknown'' @ newline
             @ ''['' @ str_capitalize (dict_get q ''category'' ''unknown'') @ '']'' @ newline"
  using assms by (simp add: format_quote_def Let_def)

lemma ascii_capitalize_philosophical: "ascii_capitalize ''philosophical'' = ''Philosophical''"
  by code_simp

lemma format_quote_defaults:
  assumes "q \<noteq> []"
    and "map_of q ''text'' = None" and "map_of q ''author'' = None" and "map_of q ''category'' = None"
  shows "format_quote str_capitalize (Some q)
           = newline @ dquote @ ''Unknown quote'' @ dquote @ newline @ newline
             @ em_dash @ '' Unknown'' @ newline @ ''['' @ str_capitalize ''unknown'' @ '']'' @ newline"
  using format_quote_present [OF assms(1), of str_capitalize] assms(2-4)
  by (simp add: dict_get_def)

lemma init_load:
  "init fs root arg
     = load_quotes fs \<lparr>quotes_file = (case arg of None \<Rightarrow> root @ ''/data/quotes.json'' | Some p \<Rightarrow> p),
                        quotes = []\<rparr>"
  by (simp add: init_def)







lemma load_quotes_mapping:
  "fs (quotes_file self) = File (Valid (Mapping data)) \<Longrightarrow>
   load_quotes fs self
     = Inr (self\<lparr>quotes := dict_get data ''quotes'' []\<rparr>,
            if dict_get data ''quotes'' [] = [] then [''Warning: No quotes found in the file.''] else [])"
  by (simp add: load_quotes_def Let_def)


lemma run_read_self: "run_state read_self w = (object w, w)"
  by (simp add: read_self_def)

lemma run_next_draw: "run_state next_draw w = (draws w (drawn w), w\<lparr>drawn := Suc (drawn w)\<rparr>)"
  by (simp add: next_draw_def)

lemma run_random_choice:
  "run_state (random_choice seq) w
     = (choice seq (draws w (drawn w)), if seq = [] then w else w\<lparr>drawn := Suc (drawn w)\<rparr>)"
  by (simp add: random_choice_def choice_def run_next_draw)

lemma run_get_random_quote_m:
  "run_state get_random_quote_m w
     = (get_random_quote (object w) (draws w (drawn w)),
        if quotes (object w) = [] then w else w\<lparr>drawn := Suc (drawn w)\<rparr>)"
  by (simp add: get_random_quote_m_def get_random_quote_def run_read_self run_random_choice)

lemma run_get_quote_by_category_m:
  "run_state (get_quote_by_category_m str_lower category) w
     = (get_quote_by_category str_lower (object w) category (draws w (drawn w)),
        if filtered_quotes str_lower (object w) category = [] then w
        else w\<lparr>drawn := Suc (drawn w)\<rparr>)"
  by (simp add: get_quote_by_category_m_def get_quote_by_category_def filtered_quotes_def
      run_read_self run_random_choice Let_def)

lemma run_get_all_categories_m:
  "run_state get_all_categories_m w = (get_all_categories (object w), w)"
  by (simp add: get_all_categories_m_def get_all_categories_def run_read_self Let_def)

lemma run_format_quote_m:
  "run_state (format_quote_m str_capitalize quote) w = (format_quote str_capitalize quote, w)"
  by (simp add: format_quote_m_def)

lemma perform_object:
  "object (snd (run_state (perform str_lower str_capitalize c) w)) = object w"
  by (cases c)
     (simp_all add: run_get_random_quote_m run_get_quote_by_category_m run_get_all_categories_m
        run_format_quote_m)

lemma random_quote_advances_generator:
  assumes "quotes (object w) \<noteq> []"
  shows "drawn (snd (run_state (run_calls str_lower str_capitalize [RandomQuote]) w)) = Suc (drawn w)"
  using assms by (simp add: run_calls_def run_get_random_quote_m)

section \<open>Random selection from the whole collection\<close>

text \<open>
  C5. For every collection with at least one record, \<^verbatim>\<open>get_random_quote\<close> returns a
  record that is a member of the collection, whatever the draw of the random selection,
  and every record of the collection is returned for some draw.
\<close>

theorem get_random_quote_member_reachable:
  assumes "1 \<le> length (quotes self)"
  shows "(\<forall>r. \<exists>q. get_random_quote self r = Inr (Some q) \<and> q \<in> set (quotes self))
       \<and> (\<forall>q \<in> set (quotes self). \<exists>r. get_random_quote self r = Inr (Some q))"
proof (intro conjI allI ballI)
  from assms have ne: "quotes self \<noteq> []" by auto
  fix r
  from choice_member [OF ne, of r] obtain q
    where "q \<in> set (quotes self)" "choice (quotes self) r = Inr q" by blast
  with ne show "\<exists>q. get_random_quote self r = Inr (Some q) \<and> q \<in> set (quotes self)"
    by (simp add: get_random_quote_def)
next
  from assms have ne: "quotes self \<noteq> []" by auto
  fix q assume "q \<in> set (quotes self)"
  from choice_reaches [OF this] obtain r where "choice (quotes self) r = Inr q" ..
  with ne have "get_random_quote self r = Inr (Some q)"
    by (simp add: get_random_quote_def)
  then show "\<exists>r. get_random_quote self r = Inr (Some q)" ..
qed

theorem get_random_quote_member_reachable_witness:
  "1 \<le> length (quotes scenario_store)
   \<and> (\<exists>q. get_random_quote scenario_store 5 = Inr (Some q) \<and> q \<in> set (quotes scenario_store))
   \<and> (\<exists>r. get_random_quote scenario_store r
              = Inr (Some [(''text'', ''C''), (''author'', ''D''), (''category'', ''philosophical'')]))"
proof -
  have h: "1 \<le> length (quotes scenario_store)"
    by (simp add: scenario_store_def)
  have m: "[(''text'', ''C''), (''author'', ''D''), (''category'', ''philosophical'')]
             \<in> set (quotes scenario_store)"
    by (simp add: scenario_store_def)
  from get_random_quote_member_reachable [OF h] m h show ?thesis by blast
qed

section \<open>The empty collection\<close>

text \<open>
  C6. If the loaded collection is empty, \<^verbatim>\<open>get_random_quote\<close> returns \<^verbatim>\<open>None\<close> and
  \<^verbatim>\<open>get_quote_by_category\<close> returns \<^verbatim>\<open>None\<close> for every query string: both are values
  returned (\<open>Inr\<close>), not exceptions raised (\<open>Inl\<close>), whatever the draw and whatever
  \<^verbatim>\<open>str.lower\<close> computes.
\<close>

theorem empty_collection_no_result:
  assumes "quotes self = []"
  shows "get_random_quote self r = Inr None
       \<and> get_quote_by_category str_lower self x r' = Inr None"
  using assms by (simp add: get_random_quote_def get_quote_by_category_def filtered_quotes_def)

theorem empty_collection_no_result_witness:
  "quotes \<lparr>quotes_file = ''quotes.json'', quotes = []\<rparr> = []
   \<and> get_random_quote \<lparr>quotes_file = ''quotes.json'', quotes = []\<rparr> 3 = Inr None
   \<and> get_quote_by_category ascii_lower \<lparr>quotes_file = ''quotes.json'', quotes = []\<rparr>
        ''motivational'' 8 = Inr None"
proof -
  have h: "quotes \<lparr>quotes_file = ''quotes.json'', quotes = []\<rparr> = []" by simp
  from empty_collection_no_result [OF h, of 3 ascii_lower "''motivational''" 8] h
  show ?thesis by simp
qed

section \<open>Formatting the empty record\<close>

text \<open>
  C2. The claim is that \<^verbatim>\<open>format_quote\<close> of the empty record substitutes the defaults
  and so contains "Unknown quote", "Unknown" and "[Unknown]". On the code the empty
  dictionary is falsy, so the guard \<^verbatim>\<open>if not quote\<close> returns the message for an absent
  quote before any default is substituted, whatever \<^verbatim>\<open>str.capitalize\<close> computes.
\<close>

theorem format_quote_empty_record:
  "format_quote str_capitalize (Some []) = ''No quote available.''"
  by (simp add: format_quote_def)

section \<open>The categories of a collection\<close>

text \<open>
  C4. For every collection, \<^verbatim>\<open>get_all_categories\<close> returns the distinct category values
  of the collection, with "unknown" for a record without a category field, as a list
  sorted in ascending lexicographic order, without duplicates, whose length is the
  number of distinct category values.
\<close>

theorem get_all_categories_sorted_distinct:
  "sorted (get_all_categories self)
   \<and> distinct (get_all_categories self)
   \<and> set (get_all_categories self)
       = (\<lambda>q. case map_of q ''category'' of None \<Rightarrow> ''unknown'' | Some c \<Rightarrow> c) ` set (quotes self)
   \<and> length (get_all_categories self)
       = card ((\<lambda>q. case map_of q ''category'' of None \<Rightarrow> ''unknown'' | Some c \<Rightarrow> c) ` set (quotes self))"
proof -
  let ?cat = "\<lambda>q::quote. case map_of q ''category'' of None \<Rightarrow> ''unknown'' | Some c \<Rightarrow> c"
  have eq: "get_all_categories self = sorted_list_of_set (?cat ` set (quotes self))"
    by (simp add: get_all_categories_def dict_get_def)
  have fin: "finite (?cat ` set (quotes self))" by simp
  show ?thesis
    unfolding eq using fin by simp
qed

section \<open>Selection by category\<close>

text \<open>
  C1. The claim is that \<^verbatim>\<open>get_quote_by_category\<close> matches the query against each
  record's category field and returns \<^verbatim>\<open>None\<close> exactly when no record's category
  matches. The comprehension reads a record without the field as having the empty
  category: against the collection of one record without a category, the empty query
  returns that record, though the record has no category to match.
\<close>

theorem get_quote_by_category_counterexample:
  "\<not> spec_category_matches ascii_lower [(''text'', ''A'')] []
   \<and> get_quote_by_category ascii_lower \<lparr>quotes_file = ''quotes.json'', quotes = [[(''text'', ''A'')]]\<rparr> [] 0
       = Inr (Some [(''text'', ''A'')])"
  by (simp add: spec_category_matches_def get_quote_by_category_def filtered_quotes_def
      dict_get_def choice_def ascii_lower_def)

text \<open>
  C1, as amended. For every collection and every query string \<open>c\<close>,
  \<^verbatim>\<open>get_quote_by_category\<close> matches \<open>c\<close> exactly, up to letter case as \<^verbatim>\<open>str.lower\<close> removes
  it, against the category of each record, the empty string standing for an absent
  field: it returns \<^verbatim>\<open>None\<close> exactly when no record matches, and whenever some record
  matches it returns a record of the collection that matches, for every draw. For a
  non-empty query the records that match are exactly those whose category field is
  present and equal to \<open>c\<close> up to case (\<^verbatim>\<open>str.lower\<close> maps the empty string, and nothing
  else, to the empty string). In particular, the queries "Motivational" and
  "motivational" against a record with category "motivational" both return that
  record (\<^verbatim>\<open>str.lower\<close> maps both to the same string).
\<close>

theorem get_quote_by_category_case_insensitive:
  "(get_quote_by_category str_lower self c r = Inr None
      \<longleftrightarrow> (\<forall>q \<in> set (quotes self). str_lower (dict_get q ''category'' []) \<noteq> str_lower c))
   \<and> ((\<exists>q \<in> set (quotes self). str_lower (dict_get q ''category'' []) = str_lower c)
        \<longrightarrow> (\<exists>q'. get_quote_by_category str_lower self c r = Inr (Some q') \<and> q' \<in> set (quotes self)
                  \<and> str_lower (dict_get q' ''category'' []) = str_lower c))
   \<and> ((\<forall>s. (str_lower s = []) = (s = [])) \<and> c \<noteq> [] \<longrightarrow>
        (\<forall>q. str_lower (dict_get q ''category'' []) = str_lower c
               \<longleftrightarrow> spec_category_matches str_lower q c))
   \<and> (str_lower ''Motivational'' = str_lower ''motivational'' \<longrightarrow>
        (\<forall>q. map_of q ''category'' = Some ''motivational'' \<longrightarrow>
           get_quote_by_category str_lower \<lparr>quotes_file = f, quotes = [q]\<rparr> ''Motivational'' r
             = Inr (Some q)
         \<and> get_quote_by_category str_lower \<lparr>quotes_file = f, quotes = [q]\<rparr> ''motivational'' r
             = Inr (Some q)))"
proof (intro conjI)
  show "get_quote_by_category str_lower self c r = Inr None
      \<longleftrightarrow> (\<forall>q \<in> set (quotes self). str_lower (dict_get q ''category'' []) \<noteq> str_lower c)"
    unfolding get_quote_by_category_None_iff
    by (simp add: filtered_quotes_def filter_empty_conv)
next
  show "(\<exists>q \<in> set (quotes self). str_lower (dict_get q ''category'' []) = str_lower c)
        \<longrightarrow> (\<exists>q'. get_quote_by_category str_lower self c r = Inr (Some q') \<and> q' \<in> set (quotes self)
                  \<and> str_lower (dict_get q' ''category'' []) = str_lower c)"
  proof
    assume "\<exists>q \<in> set (quotes self). str_lower (dict_get q ''category'' []) = str_lower c"
    then have "filtered_quotes str_lower self c \<noteq> []"
      by (simp add: filtered_quotes_def filter_empty_conv)
    from get_quote_by_category_Some [OF this, of r] show
      "\<exists>q'. get_quote_by_category str_lower self c r = Inr (Some q') \<and> q' \<in> set (quotes self)
                  \<and> str_lower (dict_get q' ''category'' []) = str_lower c"
      by (auto simp: filtered_quotes_set)
  qed
next
  show "(\<forall>s. (str_lower s = []) = (s = [])) \<and> c \<noteq> [] \<longrightarrow>
        (\<forall>q. str_lower (dict_get q ''category'' []) = str_lower c
               \<longleftrightarrow> spec_category_matches str_lower q c)"
    using code_match_is_spec_match [of str_lower c] by blast
next
  show "str_lower ''Motivational'' = str_lower ''motivational'' \<longrightarrow>
        (\<forall>q. map_of q ''category'' = Some ''motivational'' \<longrightarrow>
           get_quote_by_category str_lower \<lparr>quotes_file = f, quotes = [q]\<rparr> ''Motivational'' r
             = Inr (Some q)
         \<and> get_quote_by_category str_lower \<lparr>quotes_file = f, quotes = [q]\<rparr> ''motivational'' r
             = Inr (Some q))"
  proof (intro allI impI)
    fix q :: quote
    assume eq: "str_lower ''Motivational'' = str_lower ''motivational''"
      and "map_of q ''category'' = Some ''motivational''"
    then have g: "dict_get q ''category'' [] = ''motivational''" by (simp add: dict_get_def)
    have 1: "str_lower (dict_get q ''category'' []) = str_lower ''Motivational''"
      unfolding g eq ..
    have 2: "str_lower (dict_get q ''category'' []) = str_lower ''motivational''"
      unfolding g ..
    from get_quote_by_category_single [OF 1] get_quote_by_category_single [OF 2]
    show "get_quote_by_category str_lower \<lparr>quotes_file = f, quotes = [q]\<rparr> ''Motivational'' r
             = Inr (Some q)
         \<and> get_quote_by_category str_lower \<lparr>quotes_file = f, quotes = [q]\<rparr> ''motivational'' r
             = Inr (Some q)"
      by simp
  qed
qed

theorem get_quote_by_category_case_insensitive_witness:
  "ascii_lower (dict_get [(''text'', ''C''), (''author'', ''D''), (''category'', ''philosophical'')] ''category'' [])
     = ascii_lower ''PHILOSOPHICAL''
   \<and> get_quote_by_category ascii_lower scenario_store ''PHILOSOPHICAL'' 0 \<noteq> Inr None
   \<and> ascii_lower ''Motivational'' = ascii_lower ''motivational''
   \<and> map_of [(''text'', ''A''), (''author'', ''B''), (''category'', ''motivational'')] ''category''
       = Some ''motivational''
   \<and> get_quote_by_category ascii_lower
        \<lparr>quotes_file = ''quotes.json'',
         quotes = [[(''text'', ''A''), (''author'', ''B''), (''category'', ''motivational'')]]\<rparr>
        ''Motivational'' 0
       = Inr (Some [(''text'', ''A''), (''author'', ''B''), (''category'', ''motivational'')])
   \<and> (ascii_lower (dict_get [(''text'', ''A'')] ''category'' []) = ascii_lower ''PHILOSOPHICAL''
        \<longleftrightarrow> spec_category_matches ascii_lower [(''text'', ''A'')] ''PHILOSOPHICAL'')"
proof -
  let ?c = "[(''text'', ''C''), (''author'', ''D''), (''category'', ''philosophical'')]"
  let ?a = "[(''text'', ''A''), (''author'', ''B''), (''category'', ''motivational'')]"
  have m: "?c \<in> set (quotes scenario_store)" by (simp add: scenario_store_def)
  have l: "ascii_lower (dict_get ?c ''category'' []) = ascii_lower ''PHILOSOPHICAL''" by code_simp
  have k: "map_of ?a ''category'' = Some ''motivational''" by simp
  have e: "\<forall>s. (ascii_lower s = []) = (s = [])" by (simp add: ascii_lower_empty_iff)
  have n: "''PHILOSOPHICAL'' \<noteq> []" by simp
  from get_quote_by_category_case_insensitive
         [of ascii_lower scenario_store "''PHILOSOPHICAL''" 0 "''quotes.json''"]
    m l k e n ascii_lower_Motivational
  show ?thesis by blast
qed

section \<open>The two defaults for a missing category\<close>

text \<open>
  C10. The two operations disagree on the default for a missing category field: for
  every collection containing a record without the key \<^verbatim>\<open>category\<close>,
  \<^verbatim>\<open>get_all_categories\<close> lists "unknown", but the query "unknown" does not match that
  record, which is matched by the empty query string only. Hence a name that
  \<^verbatim>\<open>get_all_categories\<close> reports can give \<^verbatim>\<open>None\<close> from \<^verbatim>\<open>get_quote_by_category\<close>: for the
  collection of that record alone, the categories are "unknown" and the query "unknown"
  returns \<^verbatim>\<open>None\<close> for every draw. What is used of \<^verbatim>\<open>str.lower\<close> is that it maps the empty
  string, and nothing else, to the empty string.
\<close>

theorem missing_category_defaults_disagree:
  assumes "q \<in> set (quotes self)" and "map_of q ''category'' = None"
    and "\<forall>s. (str_lower s = []) = (s = [])"
  shows "''unknown'' \<in> set (get_all_categories self)
       \<and> q \<notin> set (filtered_quotes str_lower self ''unknown'')
       \<and> (\<forall>c. q \<in> set (filtered_quotes str_lower self c) \<longleftrightarrow> c = [])
       \<and> get_all_categories \<lparr>quotes_file = f, quotes = [q]\<rparr> = [''unknown'']
       \<and> (\<forall>r. get_quote_by_category str_lower \<lparr>quotes_file = f, quotes = [q]\<rparr> ''unknown'' r
                = Inr None)"
proof -
  from assms(2) have u: "dict_get q ''category'' ''unknown'' = ''unknown''"
    and e: "dict_get q ''category'' [] = []"
    by (simp_all add: dict_get_def)
  from assms(3) have l: "str_lower [] = []" by simp
  have match: "q \<in> set (filtered_quotes str_lower self c) \<longleftrightarrow> c = []" for c
  proof -
    have "q \<in> set (filtered_quotes str_lower self c) \<longleftrightarrow> str_lower [] = str_lower c"
      using assms(1) by (simp add: filtered_quotes_set e)
    also have "\<dots> \<longleftrightarrow> c = []" using assms(3) l by metis
    finally show ?thesis .
  qed
  have 1: "''unknown'' \<in> set (get_all_categories self)"
  proof -
    have "dict_get q ''category'' ''unknown''
            \<in> (\<lambda>quote. dict_get quote ''category'' ''unknown'') ` set (quotes self)"
      using assms(1) by (rule imageI)
    then show ?thesis by (simp add: get_all_categories_def u)
  qed
  have 2: "q \<notin> set (filtered_quotes str_lower self ''unknown'')"
    by (simp add: match)
  have 4: "get_all_categories \<lparr>quotes_file = f, quotes = [q]\<rparr> = [''unknown'']"
    by (simp add: get_all_categories_def u)
  have "str_lower [] \<noteq> str_lower ''unknown''" using assms(3) l by (metis list.distinct(1))
  then have "filtered_quotes str_lower \<lparr>quotes_file = f, quotes = [q]\<rparr> ''unknown'' = []"
    by (simp add: filtered_quotes_def e)
  then have 5: "\<forall>r. get_quote_by_category str_lower \<lparr>quotes_file = f, quotes = [q]\<rparr> ''unknown'' r
                  = Inr None"
    by (simp add: get_quote_by_category_def)
  from 1 2 match 4 5 show ?thesis by blast
qed

theorem missing_category_defaults_disagree_witness:
  "[(''text'', ''A'')] \<in> set (quotes \<lparr>quotes_file = ''quotes.json'', quotes = [[(''text'', ''A'')]]\<rparr>)
   \<and> map_of [(''text'', ''A'')] ''category'' = None
   \<and> ascii_lower [] = []
   \<and> ''unknown'' \<in> set (get_all_categories \<lparr>quotes_file = ''quotes.json'', quotes = [[(''text'', ''A'')]]\<rparr>)
   \<and> get_quote_by_category ascii_lower
        \<lparr>quotes_file = ''quotes.json'', quotes = [[(''text'', ''A'')]]\<rparr> ''unknown'' 0
       = Inr None"
proof -
  let ?s = "\<lparr>quotes_file = ''quotes.json'', quotes = [[(''text'', ''A'')]]\<rparr>"
  have h1: "[(''text'', ''A'')] \<in> set (quotes ?s)" by simp
  have h2: "map_of [(''text'', ''A'')] ''category'' = None" by simp
  have h3: "\<forall>s. (ascii_lower s = []) = (s = [])" by (simp add: ascii_lower_empty_iff)
  from h3 have h4: "ascii_lower [] = []" by simp
  from missing_category_defaults_disagree [OF h1 h2 h3, of "''quotes.json''"] h1 h2 h4
  show ?thesis by blast
qed

section \<open>The display layout\<close>

text \<open>
  C3. The claim is that, for every record with text \<open>t\<close>, author \<open>a\<close> and category \<open>c\<close>,
  \<^verbatim>\<open>format_quote\<close> returns a blank line, \<open>t\<close> in straight double quotes, a blank line, an
  em-dash followed by \<open>a\<close>, a blank line, and \<open>c\<close> in square brackets with its first
  letter capitalized and the remainder unchanged. The template has no blank line
  between the author line and the category line, and \<^verbatim>\<open>capitalize\<close> lower-cases the
  remainder: the output for category "motivational" is not the layout claimed, and
  category "sciFi" is shown as "[Scifi]".
\<close>

theorem format_quote_layout_counterexample:
  "format_quote ascii_capitalize
     (Some [(''text'', ''A''), (''author'', ''B''), (''category'', ''motivational'')])
     \<noteq> spec_layout ''A'' ''B'' ''motivational''
   \<and> format_quote ascii_capitalize
       (Some [(''text'', ''A''), (''author'', ''B''), (''category'', ''sciFi'')])
       = newline @ dquote @ ''A'' @ dquote @ newline @ newline
         @ em_dash @ '' B'' @ newline @ ''[Scifi]'' @ newline
   \<and> spec_capitalize ''sciFi'' = ''SciFi''"
  by code_simp

text \<open>
  C3, as amended. For every record with text \<open>t\<close>, author \<open>a\<close> and category \<open>c\<close>,
  \<^verbatim>\<open>format_quote\<close> returns a newline, \<open>t\<close> in straight double quotes, a blank line, an
  em-dash and a space followed by \<open>a\<close>, then directly on the next line \<^verbatim>\<open>c.capitalize()\<close>
  in square brackets, then a newline. For a category of ASCII characters, that is \<open>c\<close>
  with its first letter upper-cased and the remainder lower-cased, and the remainder is
  unchanged exactly when it has no upper-case letter.
\<close>

theorem format_quote_layout:
  assumes "map_of q ''text'' = Some t"
    and "map_of q ''author'' = Some a"
    and "map_of q ''category'' = Some c"
  shows "format_quote str_capitalize (Some q)
           = newline
             @ dquote @ t @ dquote @ newline
             @ newline
             @ em_dash @ '' '' @ a @ newline
             @ ''['' @ str_capitalize c @ '']'' @ newline
       \<and> ((\<forall>s. ascii_text s \<longrightarrow> str_capitalize s = ascii_capitalize s) \<and> ascii_text c \<longrightarrow>
            str_capitalize c = (case c of [] \<Rightarrow> [] | x # xs \<Rightarrow> ascii_upper_char x # ascii_lower xs)
          \<and> (str_capitalize c = spec_capitalize c \<longleftrightarrow> (\<forall>ch \<in> set (tl c). \<not> is_upper ch)))"
proof (intro conjI impI)
  from assms(1) have ne: "q \<noteq> []" by auto
  from assms have g: "dict_get q ''text'' ''Unknown quote'' = t"
    "dict_get q ''author'' ''Unknown'' = a"
    "dict_get q ''category'' ''unknown'' = c"
    by (simp_all add: dict_get_def)
  show "format_quote str_capitalize (Some q)
           = newline
             @ dquote @ t @ dquote @ newline
             @ newline
             @ em_dash @ '' '' @ a @ newline
             @ ''['' @ str_capitalize c @ '']'' @ newline"
    using format_quote_present [OF ne, of str_capitalize] by (simp only: g)
next
  assume "(\<forall>s. ascii_text s \<longrightarrow> str_capitalize s = ascii_capitalize s) \<and> ascii_text c"
  then have eq: "str_capitalize c = ascii_capitalize c" by blast
  show "str_capitalize c = (case c of [] \<Rightarrow> [] | x # xs \<Rightarrow> ascii_upper_char x # ascii_lower xs)"
    unfolding eq by (cases c) simp_all
  show "str_capitalize c = spec_capitalize c \<longleftrightarrow> (\<forall>ch \<in> set (tl c). \<not> is_upper ch)"
    unfolding eq by (rule ascii_capitalize_spec_iff)
qed

theorem format_quote_layout_witness:
  "map_of [(''text'', ''C''), (''author'', ''D''), (''category'', ''philosophical'')] ''text'' = Some ''C''
   \<and> map_of [(''text'', ''C''), (''author'', ''D''), (''category'', ''philosophical'')] ''author'' = Some ''D''
   \<and> map_of [(''text'', ''C''), (''author'', ''D''), (''category'', ''philosophical'')] ''category''
       = Some ''philosophical''
   \<and> ascii_text ''philosophical''
   \<and> format_quote ascii_capitalize
       (Some [(''text'', ''C''), (''author'', ''D''), (''category'', ''philosophical'')])
       = newline @ dquote @ ''C'' @ dquote @ newline @ newline
         @ em_dash @ '' D'' @ newline @ ''[Philosophical]'' @ newline
   \<and> ascii_capitalize ''philosophical'' = spec_capitalize ''philosophical''"
proof -
  let ?q = "[(''text'', ''C''), (''author'', ''D''), (''category'', ''philosophical'')]"
  have h1: "map_of ?q ''text'' = Some ''C''" by simp
  have h2: "map_of ?q ''author'' = Some ''D''" by simp
  have h3: "map_of ?q ''category'' = Some ''philosophical''" by simp
  have h4: "\<forall>s. ascii_text s \<longrightarrow> ascii_capitalize s = ascii_capitalize s" by simp
  have h5: "ascii_text ''philosophical''" by code_simp
  have h6: "\<forall>ch \<in> set (tl ''philosophical''). \<not> is_upper ch" by code_simp
  note inst = format_quote_layout [OF h1 h2 h3, of ascii_capitalize]
  from inst have "format_quote ascii_capitalize (Some ?q)
          = newline @ dquote @ ''C'' @ dquote @ newline @ newline
            @ em_dash @ '' '' @ ''D'' @ newline
            @ ''['' @ ascii_capitalize ''philosophical'' @ '']'' @ newline"
    by (rule conjunct1)
  then have 1: "format_quote ascii_capitalize (Some ?q)
          = newline @ dquote @ ''C'' @ dquote @ newline @ newline
            @ em_dash @ '' D'' @ newline @ ''[Philosophical]'' @ newline"
    unfolding ascii_capitalize_philosophical by simp
  from inst h4 h5 h6 have 2: "ascii_capitalize ''philosophical'' = spec_capitalize ''philosophical''"
    by blast
  from h1 h2 h3 h5 1 2 show ?thesis by blast
qed

section \<open>Failures of initialization\<close>




section \<open>Documents without records\<close>

text \<open>
  C8. Loading a valid document whose top-level mapping lacks the key \<^verbatim>\<open>quotes\<close>
  succeeds with an empty collection, and so does loading one whose \<^verbatim>\<open>quotes\<close> value has
  no records: the store is constructed with the empty collection, nothing is raised,
  and the only output is the warning line.
\<close>

theorem empty_document_loads_empty:
  assumes "path = (case arg of None \<Rightarrow> root @ ''/data/quotes.json'' | Some p \<Rightarrow> p)"
    and "fs path = File (Valid (Mapping data))"
    and "map_of data ''quotes'' = None \<or> map_of data ''quotes'' = Some []"
  shows "init fs root arg
           = Inr (\<lparr>quotes_file = path, quotes = []\<rparr>, [''Warning: No quotes found in the file.''])"
proof -
  from assms(3) have g: "dict_get data ''quotes'' [] = []"
    by (auto simp: dict_get_def)
  let ?self = "\<lparr>quotes_file = path, quotes = []\<rparr>"
  have "init fs root arg = load_quotes fs ?self"
    unfolding init_load assms(1) ..
  also from load_quotes_mapping [of fs ?self data] assms(2)
  have "load_quotes fs ?self = Inr (?self, [''Warning: No quotes found in the file.''])"
    by (simp add: g)
  finally show ?thesis .
qed

theorem empty_document_loads_empty_witness:
  "''quotes.json'' = (case Some ''quotes.json'' of None \<Rightarrow> ''/app'' @ ''/data/quotes.json'' | Some p \<Rightarrow> p)
   \<and> (empty_fs(''quotes.json'' := File (Valid (Mapping [(''version'', [])])))) ''quotes.json''
       = File (Valid (Mapping [(''version'', [])]))
   \<and> map_of [(''version'', [])] ''quotes'' = (None :: quote list option)
   \<and> init (empty_fs(''quotes.json'' := File (Valid (Mapping [(''version'', [])])))) ''/app''
        (Some ''quotes.json'')
       = Inr (\<lparr>quotes_file = ''quotes.json'', quotes = []\<rparr>, [''Warning: No quotes found in the file.''])"
proof -
  let ?p = "''quotes.json''"
  let ?data = "[(''version'', [])] :: (string \<times> quote list) list"
  let ?fs = "empty_fs(?p := File (Valid (Mapping ?data)))"
  have h1: "?p = (case Some ?p of None \<Rightarrow> ''/app'' @ ''/data/quotes.json'' | Some p \<Rightarrow> p)"
    by simp
  have h2: "?fs ?p = File (Valid (Mapping ?data))" by simp
  have h3: "map_of ?data ''quotes'' = None" by simp
  from h3 have h3': "map_of ?data ''quotes'' = None \<or> map_of ?data ''quotes'' = Some []" ..
  from empty_document_loads_empty
         [where path = ?p and arg = "Some ?p" and root = "''/app''" and fs = ?fs and data = ?data,
          OF h1 h2 h3'] h1 h2 h3
  show ?thesis by blast
qed

section \<open>Queries do not write the store\<close>

text \<open>
  C9. The collection is immutable after construction: for every state, every sequence
  of calls to \<^verbatim>\<open>get_random_quote\<close>, \<^verbatim>\<open>get_quote_by_category\<close>, \<^verbatim>\<open>get_all_categories\<close> and
  \<^verbatim>\<open>format_quote\<close>, with any arguments, leaves the object as it was, and so its
  collection, while the random selections advance the generator. The proof runs the
  body of each method: the bodies read \<^verbatim>\<open>self\<close> and write the generator only.
\<close>

theorem queries_leave_store_unchanged:
  "object (snd (run_state (run_calls str_lower str_capitalize calls) w)) = object w
   \<and> quotes (object (snd (run_state (run_calls str_lower str_capitalize calls) w))) = quotes (object w)"
proof -
  have "object (snd (run_state (traverse_list (perform str_lower str_capitalize) calls) w)) = object w"
  proof (induction calls arbitrary: w)
    case Nil
    show ?case by simp
  next
    case (Cons c cs)
    obtain out w' where p: "run_state (perform str_lower str_capitalize c) w = (out, w')"
      by (cases "run_state (perform str_lower str_capitalize c) w")
    with perform_object [of str_lower str_capitalize c w] have o: "object w' = object w" by simp
    obtain outs w'' where r: "run_state (traverse_list (perform str_lower str_capitalize) cs) w' = (outs, w'')"
      by (cases "run_state (traverse_list (perform str_lower str_capitalize) cs) w'")
    with Cons [of w'] have "object w'' = object w'" by simp
    with o show ?case by (simp add: p r)
  qed
  then show ?thesis by (simp add: run_calls_def)
qed

end
